theory Spec2Isabelle
  imports Complex_Main "HOL-Library.Sublist"
begin

section \<open>Data model\<close>

text \<open>
  Modelled from the spec: the module \<^verbatim>\<open>models\<close> (the classes Product, Order and User and
  the handle \<^verbatim>\<open>db\<close>) is imported by every resource but is not among the sources. The rows
  below carry exactly the columns the resources read and write. The price is an exact
  amount (the spec asks for fixed-point or decimal semantics), here a rational number;
  integers are unbounded as in Python. The column \<^verbatim>\<open>id\<close> is written \<open>p_id\<close>, \<open>o_id\<close>
  and \<open>u_id\<close>.
\<close>

record product =
  p_id :: int
  name :: string
  description :: string
  price :: rat
  stock :: int

record order_row =
  o_id :: int
  user_id :: int
  product_id :: int
  quantity :: int
  total_price :: rat

record user =
  u_id :: int
  username :: string
  password :: string

text \<open>The database: one list of rows per table, in insertion order.\<close>

record db =
  users :: "user list"
  products :: "product list"
  orders :: "order_row list"

definition init_db :: db where
  "init_db = \<lparr>users = [], products = [], orders = []\<rparr>"

text \<open>
  Modelled from the spec: an id is a fresh unique identifier assigned at creation; the
  database that assigns it is configured outside the sources. The model takes one more
  than the largest id of the table.
\<close>

definition next_id :: "int list \<Rightarrow> int" where
  "next_id ks = fold max ks 0 + 1"

section \<open>Requests and responses\<close>

text \<open>The JSON bodies of the requests, with the keys the resources read.\<close>

record user_data =
  data_username :: string
  data_password :: string

record product_data =
  data_name :: string
  data_description :: string
  data_price :: rat
  data_stock :: int

record order_data =
  data_product_id :: int
  data_quantity :: int

datatype json =
    JInt int
  | JNum rat
  | JStr string
  | JArr "json list"
  | JObj "(string \<times> json) list"

text \<open>
  A resource method either returns a body with a status code, or a helper of the
  framework aborts the request with a status code (\<^verbatim>\<open>get_or_404\<close>, \<^verbatim>\<open>jwt_required\<close>).
\<close>

datatype response = Returned json nat | Aborted nat

fun status :: "response \<Rightarrow> nat" where
  "status (Returned b c) = c"
| "status (Aborted c) = c"

definition message :: "string \<Rightarrow> json" where
  "message m = JObj [(''message'', JStr m)]"

text \<open>\<^verbatim>\<open>Product.query.get(k)\<close>: the row with primary key \<open>k\<close>, if there is one.\<close>

definition query_get :: "product list \<Rightarrow> int \<Rightarrow> product option" where
  "query_get tbl k = find (\<lambda>p. p_id p = k) tbl"

text \<open>\<^verbatim>\<open>Product.query.get_or_404(k)\<close>: that row, or the request is aborted with 404.\<close>

definition get_or_404 :: "product list \<Rightarrow> int \<Rightarrow> response + product" where
  "get_or_404 tbl k =
     (case query_get tbl k of
        None \<Rightarrow> Inl (Aborted 404)
      | Some p \<Rightarrow> Inr p)"

text \<open>
  \<^verbatim>\<open>@jwt_required()\<close> with \<^verbatim>\<open>get_jwt_identity()\<close>: the request carries the identity its
  token resolves to, or none; without one the request is aborted with 401 before the
  method body runs.
\<close>

definition jwt_required :: "int option \<Rightarrow> response + int" where
  "jwt_required ident = (case ident of None \<Rightarrow> Inl (Aborted 401) | Some uid \<Rightarrow> Inr uid)"

section \<open>resources/orders.py\<close>

text \<open>The commit of a changed \<^verbatim>\<open>product.stock\<close>: the row with the product's id gets the value.\<close>

definition update_stock :: "int \<Rightarrow> int \<Rightarrow> product list \<Rightarrow> product list" where
  "update_stock k v tbl = map (\<lambda>r. if p_id r = k then r\<lparr>stock := v\<rparr> else r) tbl"

text \<open>Lines 9 to 11 of \<^verbatim>\<open>OrderResource.post\<close>: the identity and the product that is read.\<close>

definition load_product :: "db \<Rightarrow> int option \<Rightarrow> order_data \<Rightarrow> response + (int \<times> product)" where
  "load_product s ident data =
     (case jwt_required ident of
        Inl r \<Rightarrow> Inl r
      | Inr uid \<Rightarrow>
          (case get_or_404 (products s) (data_product_id data) of
             Inl r \<Rightarrow> Inl r
           | Inr p \<Rightarrow> Inr (uid, p)))"

text \<open>Lines 13 to 23: the stock check, the order, the decrement and the commit.\<close>

definition place_order :: "db \<Rightarrow> int \<Rightarrow> order_data \<Rightarrow> product \<Rightarrow> db \<times> response" where
  "place_order s uid data p =
     (if stock p < data_quantity data then (s, Returned (message ''Not enough stock'') 400)
      else
        let total = price p * of_int (data_quantity data);
            new_order = \<lparr>o_id = next_id (map o_id (orders s)), user_id = uid,
                         product_id = p_id p, quantity = data_quantity data,
                         total_price = total\<rparr>
        in (s\<lparr>products := update_stock (p_id p) (stock p - data_quantity data) (products s),
               orders := orders s @ [new_order]\<rparr>,
            Returned (message ''Order placed successfully'') 201))"

definition OrderResource_post :: "db \<Rightarrow> int option \<Rightarrow> order_data \<Rightarrow> db \<times> response" where
  "OrderResource_post s ident data =
     (case load_product s ident data of
        Inl r \<Rightarrow> (s, r)
      | Inr (uid, p) \<Rightarrow> place_order s uid data p)"

definition order_json :: "order_row \<Rightarrow> json" where
  "order_json o' = JObj [(''id'', JInt (o_id o')), (''product_id'', JInt (product_id o')),
                         (''quantity'', JInt (quantity o')), (''total_price'', JNum (total_price o'))]"

definition OrderResource_get :: "db \<Rightarrow> int option \<Rightarrow> response" where
  "OrderResource_get s ident =
     (case jwt_required ident of
        Inl r \<Rightarrow> r
      | Inr uid \<Rightarrow> Returned (JArr (map order_json (filter (\<lambda>o'. user_id o' = uid) (orders s)))) 200)"

section \<open>resources/products.py\<close>

definition product_json :: "product \<Rightarrow> json" where
  "product_json p = JObj [(''id'', JInt (p_id p)), (''name'', JStr (name p)),
                          (''price'', JNum (price p)), (''stock'', JInt (stock p))]"

definition ProductList_get :: "db \<Rightarrow> response" where
  "ProductList_get s = Returned (JArr (map product_json (products s))) 200"

definition ProductList_post :: "db \<Rightarrow> int option \<Rightarrow> product_data \<Rightarrow> db \<times> response" where
  "ProductList_post s ident data =
     (case jwt_required ident of
        Inl r \<Rightarrow> (s, r)
      | Inr uid \<Rightarrow>
          let new_product = \<lparr>p_id = next_id (map p_id (products s)), name = data_name data,
                             description = data_description data, price = data_price data,
                             stock = data_stock data\<rparr>
          in (s\<lparr>products := products s @ [new_product]\<rparr>,
              Returned (message ''Product added successfully'') 201))"

definition ProductDetail_get :: "db \<Rightarrow> int \<Rightarrow> response" where
  "ProductDetail_get s k =
     (case get_or_404 (products s) k of
        Inl r \<Rightarrow> r
      | Inr p \<Rightarrow> Returned (product_json p) 200)"

text \<open>
  Modelled from the spec: deleting a product removes its row only; the orders that refer
  to it stay (an unenforced reference), the table declarations being outside the sources.
\<close>

definition ProductDetail_delete :: "db \<Rightarrow> int option \<Rightarrow> int \<Rightarrow> db \<times> response" where
  "ProductDetail_delete s ident k =
     (case jwt_required ident of
        Inl r \<Rightarrow> (s, r)
      | Inr uid \<Rightarrow>
          (case get_or_404 (products s) k of
             Inl r \<Rightarrow> (s, r)
           | Inr p \<Rightarrow>
               (s\<lparr>products := filter (\<lambda>r. p_id r \<noteq> p_id p) (products s)\<rparr>,
                Returned (message ''Product deleted successfully'') 200)))"

section \<open>resources/users.py\<close>

text \<open>
  The password hashing and the token come from libraries; the resources are modelled over
  any such functions.
\<close>

record security =
  generate_password_hash :: "string \<Rightarrow> string"
  check_password_hash :: "string \<Rightarrow> string \<Rightarrow> bool"
  create_access_token :: "int \<Rightarrow> string"

definition RegisterUser_post :: "security \<Rightarrow> db \<Rightarrow> user_data \<Rightarrow> db \<times> response" where
  "RegisterUser_post sec s data =
     (let hashed_password = generate_password_hash sec (data_password data);
          new_user = \<lparr>u_id = next_id (map u_id (users s)), username = data_username data,
                      password = hashed_password\<rparr>
      in (s\<lparr>users := users s @ [new_user]\<rparr>, Returned (message ''User created successfully'') 201))"

definition LoginUser_post :: "security \<Rightarrow> db \<Rightarrow> user_data \<Rightarrow> response" where
  "LoginUser_post sec s data =
     (case find (\<lambda>u. username u = data_username data) (users s) of
        None \<Rightarrow> Returned (message ''Invalid credentials'') 401
      | Some u \<Rightarrow>
          if check_password_hash sec (password u) (data_password data)
          then Returned (JObj [(''access_token'', JStr (create_access_token sec (u_id u)))]) 200
          else Returned (message ''Invalid credentials'') 401)"

section \<open>app.py: the routes\<close>

datatype request =
    POST_register user_data
  | POST_login user_data
  | GET_products
  | POST_products "int option" product_data
  | GET_product int
  | DELETE_product "int option" int
  | POST_orders "int option" order_data
  | GET_orders "int option"
  | GET_home

fun handle :: "security \<Rightarrow> db \<Rightarrow> request \<Rightarrow> db \<times> response" where
  "handle sec s (POST_register data) = RegisterUser_post sec s data"
| "handle sec s (POST_login data) = (s, LoginUser_post sec s data)"
| "handle sec s GET_products = (s, ProductList_get s)"
| "handle sec s (POST_products ident data) = ProductList_post s ident data"
| "handle sec s (GET_product k) = (s, ProductDetail_get s k)"
| "handle sec s (DELETE_product ident k) = ProductDetail_delete s ident k"
| "handle sec s (POST_orders ident data) = OrderResource_post s ident data"
| "handle sec s (GET_orders ident) = (s, OrderResource_get s ident)"
| "handle sec s GET_home = (s, Returned (message ''Welcome to T2S E-Commerce API'') 200)"

text \<open>The database after a sequence of requests, served one after the other.\<close>

fun serve :: "security \<Rightarrow> db \<Rightarrow> request list \<Rightarrow> db" where
  "serve sec s [] = s"
| "serve sec s (r # rs) = serve sec (fst (handle sec s r)) rs"

section \<open>Interleaved order placements\<close>

text \<open>
  \<^verbatim>\<open>OrderResource.post\<close> reads the product (line 11) and later commits the stock it
  computed from that reading (lines 13 to 21); nothing in the sources locks the row in
  between. A request in progress is therefore in one of three places: not started, holding
  the product it has read, or answered. One step of a request is one of the two parts of
  \<open>OrderResource_post\<close>.
\<close>

datatype task =
    Pending "int option" order_data
  | Loaded int order_data product
  | Finished response

fun task_step :: "db \<Rightarrow> task \<Rightarrow> db \<times> task" where
  "task_step s (Pending ident data) =
     (case load_product s ident data of
        Inl r \<Rightarrow> (s, Finished r)
      | Inr (uid, p) \<Rightarrow> (s, Loaded uid data p))"
| "task_step s (Loaded uid data p) = (let (s', r) = place_order s uid data p in (s', Finished r))"
| "task_step s (Finished r) = (s, Finished r)"

text \<open>
  Two requests over one database; the schedule says which of them takes the next step
  (\<open>False\<close> the first, \<open>True\<close> the second).
\<close>

fun interleave :: "bool list \<Rightarrow> db \<times> task \<times> task \<Rightarrow> db \<times> task \<times> task" where
  "interleave [] c = c"
| "interleave (b # bs) (s, t1, t2) =
     (if b then (let (s', t2') = task_step s t2 in interleave bs (s', t1, t2'))
      else (let (s', t1') = task_step s t1 in interleave bs (s', t1', t2)))"

section \<open>Properties\<close>

text \<open>Every product has a non-negative stock.\<close>

definition stock_inv :: "db \<Rightarrow> bool" where
  "stock_inv s = list_all (\<lambda>p. 0 \<le> stock p) (products s)"

text \<open>The requests that create a product with a negative stock are the ones left out below.\<close>

fun supplies_stock :: "request \<Rightarrow> bool" where
  "supplies_stock (POST_products ident data) = (0 \<le> data_stock data)"
| "supplies_stock r = True"

text \<open>The state of scenario A: one product, id 1, price 10.00, stock 5.\<close>

definition scenario_db :: db where
  "scenario_db =
     \<lparr>users = [],
      products = [\<lparr>p_id = 1, name = ''widget'', description = ''a widget'', price = 10, stock = 5\<rparr>],
      orders = []\<rparr>"

definition plain_security :: security where
  "plain_security =
     \<lparr>generate_password_hash = (\<lambda>pw. pw), check_password_hash = (\<lambda>h pw. h = pw),
      create_access_token = (\<lambda>uid. ''token'')\<rparr>"

section \<open>Auxiliary facts\<close>

lemma query_get_id: "query_get tbl k = Some p \<Longrightarrow> p_id p = k"
  unfolding query_get_def by (induction tbl) (auto split: if_splits)


lemma query_get_mem: "query_get tbl k = Some p \<Longrightarrow> p \<in> set tbl"
  unfolding query_get_def by (induction tbl) (auto split: if_splits)


lemma query_get_update_stock:
  "query_get (update_stock k v tbl) k' =
     (if k' = k then map_option (\<lambda>r. r\<lparr>stock := v\<rparr>) (query_get tbl k) else query_get tbl k')"
  unfolding query_get_def update_stock_def by (induction tbl) auto


lemma post_unauthenticated: "OrderResource_post s None data = (s, Aborted 401)"
  by (simp add: OrderResource_post_def load_product_def jwt_required_def)


lemma post_absent:
  "query_get (products s) (data_product_id data) = None \<Longrightarrow>
   OrderResource_post s (Some uid) data = (s, Aborted 404)"
  by (simp add: OrderResource_post_def load_product_def jwt_required_def get_or_404_def)


lemma post_found:
  "query_get (products s) (data_product_id data) = Some p \<Longrightarrow>
   OrderResource_post s (Some uid) data = place_order s uid data p"
  by (simp add: OrderResource_post_def load_product_def jwt_required_def get_or_404_def)


lemma place_order_short:
  "stock p < data_quantity data \<Longrightarrow>
   place_order s uid data p = (s, Returned (message ''Not enough stock'') 400)"
  by (simp add: place_order_def)


lemma place_order_enough:
  "\<not> stock p < data_quantity data \<Longrightarrow>
   place_order s uid data p =
     (s\<lparr>products := update_stock (p_id p) (stock p - data_quantity data) (products s),
        orders := orders s @ [\<lparr>o_id = next_id (map o_id (orders s)), user_id = uid,
                         product_id = p_id p, quantity = data_quantity data,
                         total_price = price p * of_int (data_quantity data)\<rparr>]\<rparr>,
      Returned (message ''Order placed successfully'') 201)"
  by (simp add: place_order_def Let_def)


lemma post_cases:
  obtains (unauth) "ident = None" "OrderResource_post s ident data = (s, Aborted 401)"
  | (absent) uid where "ident = Some uid" "query_get (products s) (data_product_id data) = None"
      "OrderResource_post s ident data = (s, Aborted 404)"
  | (short) uid p where "ident = Some uid" "query_get (products s) (data_product_id data) = Some p"
      "stock p < data_quantity data"
      "OrderResource_post s ident data = (s, Returned (message ''Not enough stock'') 400)"
  | (placed) uid p where "ident = Some uid" "query_get (products s) (data_product_id data) = Some p"
      "\<not> stock p < data_quantity data"
      "OrderResource_post s ident data =
        (s\<lparr>products := update_stock (p_id p) (stock p - data_quantity data) (products s),
        orders := orders s @ [\<lparr>o_id = next_id (map o_id (orders s)), user_id = uid,
                         product_id = p_id p, quantity = data_quantity data,
                         total_price = price p * of_int (data_quantity data)\<rparr>]\<rparr>,
      Returned (message ''Order placed successfully'') 201)"
proof (cases ident)
  case None
  then show ?thesis using unauth post_unauthenticated by simp
next
  case (Some uid)
  show ?thesis
  proof (cases "query_get (products s) (data_product_id data)")
    case None
    then show ?thesis using absent Some post_absent by simp
  next
    case (Some p)
    show ?thesis
    proof (cases "stock p < data_quantity data")
      case True
      then show ?thesis using short \<open>ident = Some uid\<close> Some post_found place_order_short by simp
    next
      case False
      then show ?thesis using placed \<open>ident = Some uid\<close> Some post_found place_order_enough by simp
    qed
  qed
qed



lemma update_stock_length: "length (update_stock k v tbl) = length tbl"
  by (simp add: update_stock_def)


lemma update_stock_nth:
  "i < length tbl \<Longrightarrow>
   update_stock k v tbl ! i = (if p_id (tbl ! i) = k then (tbl ! i)\<lparr>stock := v\<rparr> else tbl ! i)"
  by (simp add: update_stock_def)


lemma update_stock_inv:
  "0 \<le> v \<Longrightarrow> list_all (\<lambda>p. 0 \<le> stock p) tbl \<Longrightarrow> list_all (\<lambda>p. 0 \<le> stock p) (update_stock k v tbl)"
  by (induction tbl) (auto simp: update_stock_def)


lemma post_stock_inv: "stock_inv s \<Longrightarrow> stock_inv (fst (OrderResource_post s ident data))"
  by (cases rule: post_cases [of ident s data]) (auto simp: stock_inv_def update_stock_inv)


lemma delete_stock_inv: "stock_inv s \<Longrightarrow> stock_inv (fst (ProductDetail_delete s ident k))"
  by (auto simp: ProductDetail_delete_def stock_inv_def list_all_iff split: sum.splits)


lemma create_stock_inv:
  "stock_inv s \<Longrightarrow> 0 \<le> data_stock data \<Longrightarrow> stock_inv (fst (ProductList_post s ident data))"
  by (auto simp: ProductList_post_def stock_inv_def Let_def split: sum.splits)


lemma register_products: "products (fst (RegisterUser_post sec s data)) = products s"
  by (simp add: RegisterUser_post_def Let_def)


lemma handle_stock_inv:
  "stock_inv s \<Longrightarrow> supplies_stock r \<Longrightarrow> stock_inv (fst (handle sec s r))"
proof (cases r)
  case (POST_register data)
  assume "stock_inv s"
  then show ?thesis using POST_register register_products [of sec s data] by (simp add: stock_inv_def)
qed (simp_all add: post_stock_inv delete_stock_inv create_stock_inv)


lemma handle_orders: "\<exists>os. orders (fst (handle sec s r)) = orders s @ os"
proof (cases r)
  case (POST_orders ident data)
  then show ?thesis by (cases rule: post_cases [of ident s data]) auto
qed (auto simp: RegisterUser_post_def ProductList_post_def ProductDetail_delete_def Let_def split: sum.splits)


lemma serve_orders: "prefix (orders s) (orders (serve sec s rs))"
proof (induction rs arbitrary: s)
  case Nil
  then show ?case by simp
next
  case (Cons r rs)
  obtain os where "orders (fst (handle sec s r)) = orders s @ os"
    using handle_orders by blast
  then have "prefix (orders s) (orders (fst (handle sec s r)))" by simp
  also have "prefix \<dots> (orders (serve sec (fst (handle sec s r)) rs))" by (rule Cons.IH)
  finally show ?case by simp
qed

lemma update_stock_hit:
  assumes "r \<in> set (update_stock k v tbl)" and "p_id r = k"
  shows "stock r = v"
proof -
  from assms(1) obtain x where x: "r = (if p_id x = k then x\<lparr>stock := v\<rparr> else x)"
    unfolding update_stock_def set_map by (rule imageE)
  show ?thesis
  proof (cases "p_id x = k")
    case True
    then show ?thesis using x by simp
  next
    case False
    then show ?thesis using x assms(2) by simp
  qed
qed

lemmas order_defs = OrderResource_post_def load_product_def jwt_required_def get_or_404_def
  query_get_def place_order_def update_stock_def next_id_def




lemma task_run:
  "interleave [False, False] (s, Pending ident data, t) =
     (fst (OrderResource_post s ident data), Finished (snd (OrderResource_post s ident data)), t)"
  by (simp add: OrderResource_post_def case_prod_unfold Let_def split: sum.splits)

text \<open>The order of scenario A, evaluated on the concrete state.\<close>

lemma scenario_post:
  "OrderResource_post scenario_db (Some 42) \<lparr>data_product_id = 1, data_quantity = 3\<rparr>
     = (\<lparr>users = [],
         products = [\<lparr>p_id = 1, name = ''widget'', description = ''a widget'', price = 10, stock = 2\<rparr>],
         orders = [\<lparr>o_id = 1, user_id = 42, product_id = 1, quantity = 3, total_price = 30\<rparr>]\<rparr>,
        Returned (message ''Order placed successfully'') 201)"
  by (simp add: order_defs scenario_db_def)

section \<open>Claims\<close>

text \<open>
  C6 (scenario A). In a state where the product with id 1 has price 10.00 and stock 5, the
  order of user 42 for 3 units of product 1 succeeds: an order with product id 1,
  quantity 3 and total price 30.00 is appended, and the product's stock is then 2.
\<close>

theorem scenario_A:
  assumes "query_get (products s) 1 = Some p" and "price p = 10" and "stock p = 5"
  shows "\<exists>s' o'. OrderResource_post s (Some 42) \<lparr>data_product_id = 1, data_quantity = 3\<rparr>
               = (s', Returned (message ''Order placed successfully'') 201) \<and>
             orders s' = orders s @ [o'] \<and>
             user_id o' = 42 \<and> product_id o' = 1 \<and> quantity o' = 3 \<and> total_price o' = 30 \<and>
             query_get (products s') 1 = Some (p\<lparr>stock := 2\<rparr>)"
proof -
  let ?d = "\<lparr>data_product_id = 1, data_quantity = 3\<rparr>"
  have k: "p_id p = 1" using assms(1) by (rule query_get_id)
  have found: "query_get (products s) (data_product_id ?d) = Some p" using assms(1) by simp
  have enough: "\<not> stock p < data_quantity ?d" by (simp add: assms(3))
  have "OrderResource_post s (Some 42) ?d = place_order s 42 ?d p"
    using found by (rule post_found)
  also have "\<dots> =
      (s\<lparr>products := update_stock (p_id p) (stock p - data_quantity ?d) (products s),
         orders := orders s @ [\<lparr>o_id = next_id (map o_id (orders s)), user_id = 42,
                         product_id = p_id p, quantity = data_quantity ?d,
                         total_price = price p * of_int (data_quantity ?d)\<rparr>]\<rparr>,
       Returned (message ''Order placed successfully'') 201)"
    using enough by (rule place_order_enough)
  finally show ?thesis
    by (simp add: k assms(2,3) query_get_update_stock assms(1))
qed

theorem scenario_A_witness:
  "OrderResource_post scenario_db (Some 42) \<lparr>data_product_id = 1, data_quantity = 3\<rparr>
     = (\<lparr>users = [],
         products = [\<lparr>p_id = 1, name = ''widget'', description = ''a widget'', price = 10, stock = 2\<rparr>],
         orders = [\<lparr>o_id = 1, user_id = 42, product_id = 1, quantity = 3, total_price = 30\<rparr>]\<rparr>,
        Returned (message ''Order placed successfully'') 201)"
proof -
  let ?p = "\<lparr>p_id = 1, name = ''widget'', description = ''a widget'', price = 10, stock = 5\<rparr>"
  have found: "query_get (products scenario_db) 1 = Some ?p"
    by (simp add: scenario_db_def query_get_def)
  have "price ?p = 10" and "stock ?p = 5" by simp_all
  with found scenario_A [of scenario_db ?p] obtain s' o' where
    post: "OrderResource_post scenario_db (Some 42) \<lparr>data_product_id = 1, data_quantity = 3\<rparr>
             = (s', Returned (message ''Order placed successfully'') 201)"
    by auto
  show ?thesis by (simp add: order_defs scenario_db_def)
qed

text \<open>
  C2 (atomicity of a failed order). When \<^verbatim>\<open>POST /orders\<close> answers 400 (not enough stock)
  or 404 (no such product), the database after the request is the database before it: no
  stock has changed and no order has been appended.
\<close>

theorem failed_order_changes_nothing:
  assumes "OrderResource_post s ident data = (s', r)"
    and "status r = 400 \<or> status r = 404"
  shows "s' = s \<and> products s' = products s \<and> orders s' = orders s"
  using assms by (cases rule: post_cases [of ident s data]) auto

theorem failed_order_changes_nothing_witness:
  "status (snd (OrderResource_post scenario_db (Some 42) \<lparr>data_product_id = 1, data_quantity = 9\<rparr>)) = 400 \<and>
   fst (OrderResource_post scenario_db (Some 42) \<lparr>data_product_id = 1, data_quantity = 9\<rparr>) = scenario_db \<and>
   status (snd (OrderResource_post scenario_db (Some 42) \<lparr>data_product_id = 999, data_quantity = 1\<rparr>)) = 404 \<and>
   fst (OrderResource_post scenario_db (Some 42) \<lparr>data_product_id = 999, data_quantity = 1\<rparr>) = scenario_db"
proof -
  let ?a = "OrderResource_post scenario_db (Some 42) \<lparr>data_product_id = 1, data_quantity = 9\<rparr>"
  let ?b = "OrderResource_post scenario_db (Some 42) \<lparr>data_product_id = 999, data_quantity = 1\<rparr>"
  have a: "status (snd ?a) = 400" by (simp add: order_defs scenario_db_def)
  have b: "status (snd ?b) = 404" by (simp add: order_defs scenario_db_def)
  have "fst ?a = scenario_db"
    using failed_order_changes_nothing [of scenario_db "Some 42" _ "fst ?a" "snd ?a"] a by simp
  moreover have "fst ?b = scenario_db"
    using failed_order_changes_nothing [of scenario_db "Some 42" _ "fst ?b" "snd ?b"] b by simp
  ultimately show ?thesis using a b by simp
qed

text \<open>
  C10 (ordering the whole stock). When the requested quantity is positive and equal to
  the product's stock, the order is placed (the check is a strict \<open><\<close>) and the stock
  of the product is 0 afterwards.
\<close>

theorem order_whole_stock:
  assumes "query_get (products s) k = Some p" and "0 < q" and "q = stock p"
  shows "\<exists>s'. OrderResource_post s (Some uid) \<lparr>data_product_id = k, data_quantity = q\<rparr>
            = (s', Returned (message ''Order placed successfully'') 201) \<and>
          query_get (products s') k = Some (p\<lparr>stock := 0\<rparr>) \<and>
          (\<forall>r \<in> set (products s'). p_id r = k \<longrightarrow> stock r = 0)"
proof -
  let ?d = "\<lparr>data_product_id = k, data_quantity = q\<rparr>"
  let ?o = "\<lparr>o_id = next_id (map o_id (orders s)), user_id = uid,
             product_id = p_id p, quantity = data_quantity ?d,
             total_price = price p * of_int (data_quantity ?d)\<rparr>"
  let ?s' = "s\<lparr>products := update_stock (p_id p) (stock p - data_quantity ?d) (products s),
               orders := orders s @ [?o]\<rparr>"
  have k: "p_id p = k" using assms(1) by (rule query_get_id)
  have found: "query_get (products s) (data_product_id ?d) = Some p"
    using assms(1) by simp
  have enough: "\<not> stock p < data_quantity ?d"
    by (simp add: assms(3))
  have zero: "stock p - data_quantity ?d = 0"
    by (simp add: assms(3))
  have "OrderResource_post s (Some uid) ?d = place_order s uid ?d p"
    using found by (rule post_found)
  also have "\<dots> = (?s', Returned (message ''Order placed successfully'') 201)"
    using enough by (rule place_order_enough)
  finally have post: "OrderResource_post s (Some uid) ?d
      = (?s', Returned (message ''Order placed successfully'') 201)" .
  have tbl: "products ?s' = update_stock k 0 (products s)"
    unfolding zero k by simp
  have "query_get (update_stock k 0 (products s)) k = Some (p\<lparr>stock := 0\<rparr>)"
    by (simp add: query_get_update_stock assms(1))
  moreover have "\<forall>r \<in> set (update_stock k 0 (products s)). p_id r = k \<longrightarrow> stock r = 0"
    using update_stock_hit by blast
  ultimately have "query_get (products ?s') k = Some (p\<lparr>stock := 0\<rparr>) \<and>
      (\<forall>r \<in> set (products ?s'). p_id r = k \<longrightarrow> stock r = 0)"
    unfolding tbl by (rule conjI)
  with post show ?thesis by (intro exI [of _ ?s'] conjI) simp_all
qed

theorem order_whole_stock_witness:
  "OrderResource_post scenario_db (Some 42) \<lparr>data_product_id = 1, data_quantity = 5\<rparr>
     = (\<lparr>users = [],
         products = [\<lparr>p_id = 1, name = ''widget'', description = ''a widget'', price = 10, stock = 0\<rparr>],
         orders = [\<lparr>o_id = 1, user_id = 42, product_id = 1, quantity = 5, total_price = 50\<rparr>]\<rparr>,
        Returned (message ''Order placed successfully'') 201)"
proof -
  let ?p = "\<lparr>p_id = 1, name = ''widget'', description = ''a widget'', price = 10, stock = 5\<rparr>"
  have found: "query_get (products scenario_db) 1 = Some ?p"
    by (simp add: scenario_db_def query_get_def)
  have "(0::int) < 5" and "(5::int) = stock ?p" by simp_all
  with found order_whole_stock [of scenario_db 1 ?p 5 42] obtain s' where
    post: "OrderResource_post scenario_db (Some 42) \<lparr>data_product_id = 1, data_quantity = 5\<rparr>
             = (s', Returned (message ''Order placed successfully'') 201)"
    and row: "query_get (products s') 1 = Some (?p\<lparr>stock := 0\<rparr>)"
    by blast
  have "fst (OrderResource_post scenario_db (Some 42) \<lparr>data_product_id = 1, data_quantity = 5\<rparr>)
      = \<lparr>users = [],
         products = [\<lparr>p_id = 1, name = ''widget'', description = ''a widget'', price = 10, stock = 0\<rparr>],
         orders = [\<lparr>o_id = 1, user_id = 42, product_id = 1, quantity = 5, total_price = 50\<rparr>]\<rparr>"
    by (simp add: order_defs scenario_db_def)
  with post show ?thesis by simp
qed

text \<open>
  C1 (stock is never negative), as the code has it. The empty database satisfies
  \<open>stock_inv\<close>; placing an order (for any quantity) and deleting a product preserve it;
  creating a product stores the stock of the request body as it is, so it preserves
  \<open>stock_inv\<close> when that stock is non-negative. Hence \<open>stock_inv\<close> holds after any
  sequence of requests, served one after the other, in which every \<^verbatim>\<open>POST /products\<close>
  carries a non-negative stock.
\<close>

theorem stock_inv_preserved:
  "stock_inv init_db \<and>
   (stock_inv s \<longrightarrow> stock_inv (fst (OrderResource_post s ident od))) \<and>
   (stock_inv s \<longrightarrow> stock_inv (fst (ProductDetail_delete s ident k))) \<and>
   (stock_inv s \<and> 0 \<le> data_stock pd \<longrightarrow> stock_inv (fst (ProductList_post s ident pd))) \<and>
   (stock_inv s \<and> list_all supplies_stock rs \<longrightarrow> stock_inv (serve sec s rs))"
proof -
  have "stock_inv s \<Longrightarrow> list_all supplies_stock rs \<Longrightarrow> stock_inv (serve sec s rs)"
  proof (induction rs arbitrary: s)
    case Nil
    then show ?case by simp
  next
    case (Cons r rs)
    then show ?case by (simp add: handle_stock_inv)
  qed
  moreover have "stock_inv init_db" by (simp add: stock_inv_def init_db_def)
  ultimately show ?thesis by (simp add: post_stock_inv delete_stock_inv create_stock_inv)
qed

theorem stock_inv_preserved_witness:
  "stock_inv scenario_db \<and>
   stock_inv (fst (OrderResource_post scenario_db (Some 42) \<lparr>data_product_id = 1, data_quantity = 3\<rparr>)) \<and>
   stock_inv (fst (ProductDetail_delete scenario_db (Some 42) 1)) \<and>
   stock_inv (fst (ProductList_post scenario_db (Some 42)
      \<lparr>data_name = ''gadget'', data_description = ''a gadget'', data_price = 4, data_stock = 0\<rparr>)) \<and>
   stock_inv (serve plain_security scenario_db
      [POST_orders (Some 42) \<lparr>data_product_id = 1, data_quantity = - 2\<rparr>,
       POST_products (Some 42)
         \<lparr>data_name = ''gadget'', data_description = ''a gadget'', data_price = 4, data_stock = 0\<rparr>,
       DELETE_product (Some 42) 1])"
proof -
  have "stock_inv scenario_db" by (simp add: stock_inv_def scenario_db_def)
  then show ?thesis
    using stock_inv_preserved [of scenario_db "Some 42" "\<lparr>data_product_id = 1, data_quantity = 3\<rparr>"
        1 "\<lparr>data_name = ''gadget'', data_description = ''a gadget'', data_price = 4, data_stock = 0\<rparr>"
        "[POST_orders (Some 42) \<lparr>data_product_id = 1, data_quantity = - 2\<rparr>,
          POST_products (Some 42)
            \<lparr>data_name = ''gadget'', data_description = ''a gadget'', data_price = 4, data_stock = 0\<rparr>,
          DELETE_product (Some 42) 1]" plain_security]
    by simp
qed

text \<open>
  C1 as stated fails: \<^verbatim>\<open>POST /products\<close> with stock -1 on the empty database creates a
  product with a negative stock.
\<close>

theorem negative_stock_created:
  "stock_inv init_db \<and>
   \<not> stock_inv (fst (ProductList_post init_db (Some 1)
        \<lparr>data_name = ''widget'', data_description = ''a widget'', data_price = 10, data_stock = - 1\<rparr>))"
  by (simp add: stock_inv_def init_db_def ProductList_post_def jwt_required_def Let_def)

text \<open>
  C4 (price snapshot). A successful order appends one order whose total price is the
  price of the product as read from the state before the request, times the quantity;
  and whatever requests are served afterwards (product deletions included), the orders
  table keeps the rows it had, in place and unchanged.
\<close>

theorem total_price_snapshot:
  assumes "OrderResource_post s ident data = (s', r)" and "status r = 201"
  shows "\<exists>p o'. query_get (products s) (data_product_id data) = Some p \<and>
           orders s' = orders s @ [o'] \<and>
           total_price o' = price p * of_int (data_quantity data) \<and>
           (\<forall>sec rs. prefix (orders s @ [o']) (orders (serve sec s' rs)))"
  using assms
proof (cases rule: post_cases [of ident s data])
  case (placed uid p)
  then have "orders s' = orders s @ [\<lparr>o_id = next_id (map o_id (orders s)), user_id = uid,
                         product_id = p_id p, quantity = data_quantity data,
                         total_price = price p * of_int (data_quantity data)\<rparr>]"
    using assms(1) by auto
  moreover have "\<forall>sec rs. prefix (orders s') (orders (serve sec s' rs))"
    using serve_orders by blast
  ultimately show ?thesis using placed(2) by auto
qed auto

theorem total_price_snapshot_witness:
  "\<exists>p o'. query_get (products scenario_db) 1 = Some p \<and>
      orders (fst (OrderResource_post scenario_db (Some 42) \<lparr>data_product_id = 1, data_quantity = 3\<rparr>))
        = orders scenario_db @ [o'] \<and>
      total_price o' = price p * 3 \<and>
      (\<forall>sec rs. prefix (orders scenario_db @ [o'])
         (orders (serve sec
           (fst (OrderResource_post scenario_db (Some 42) \<lparr>data_product_id = 1, data_quantity = 3\<rparr>)) rs)))"
proof -
  let ?c = "OrderResource_post scenario_db (Some 42) \<lparr>data_product_id = 1, data_quantity = 3\<rparr>"
  have "status (snd ?c) = 201" by (simp add: scenario_post)
  then show ?thesis
    using total_price_snapshot [of scenario_db "Some 42" "\<lparr>data_product_id = 1, data_quantity = 3\<rparr>"
        "fst ?c" "snd ?c"]
    by simp
qed

text \<open>
  C8 (own orders only). For an authenticated caller, \<^verbatim>\<open>GET /orders\<close> answers 200 with
  a JSON array that has one object per order of a list \<open>os\<close>, each object holding the id,
  the product id, the quantity and the total price of its order; \<open>os\<close> contains exactly
  the orders of the table whose \<open>user_id\<close> is the caller's identity, each as often as
  the table has it, so that no order of another user is in the response.
\<close>

theorem own_orders_only:
  "\<exists>os. OrderResource_get s (Some uid)
          = Returned (JArr (map (\<lambda>o'. JObj [(''id'', JInt (o_id o')),
                                              (''product_id'', JInt (product_id o')),
                                              (''quantity'', JInt (quantity o')),
                                              (''total_price'', JNum (total_price o'))]) os)) 200 \<and>
        (\<forall>o'. o' \<in> set os \<longleftrightarrow> o' \<in> set (orders s) \<and> user_id o' = uid) \<and>
        (\<forall>o'. count_list os o' = (if user_id o' = uid then count_list (orders s) o' else 0))"
proof -
  let ?os = "filter (\<lambda>o'. user_id o' = uid) (orders s)"
  have count: "count_list (filter (\<lambda>o'. user_id o' = uid) xs) o'
      = (if user_id o' = uid then count_list xs o' else 0)"
    for xs :: "order_row list" and o'
    by (induction xs) auto
  have enc: "order_json = (\<lambda>o'. JObj [(''id'', JInt (o_id o')),
                                       (''product_id'', JInt (product_id o')),
                                       (''quantity'', JInt (quantity o')),
                                       (''total_price'', JNum (total_price o'))])"
    by (rule ext) (simp add: order_json_def)
  have "OrderResource_get s (Some uid) = Returned (JArr (map order_json ?os)) 200"
    by (simp add: OrderResource_get_def jwt_required_def)
  then have resp: "OrderResource_get s (Some uid)
          = Returned (JArr (map (\<lambda>o'. JObj [(''id'', JInt (o_id o')),
                                              (''product_id'', JInt (product_id o')),
                                              (''quantity'', JInt (quantity o')),
                                              (''total_price'', JNum (total_price o'))]) ?os)) 200"
    unfolding enc .
  have mem: "\<forall>o'. o' \<in> set ?os \<longleftrightarrow> o' \<in> set (orders s) \<and> user_id o' = uid"
    by simp
  have cnt: "\<forall>o'. count_list ?os o' = (if user_id o' = uid then count_list (orders s) o' else 0)"
    using count by blast
  from resp mem cnt show ?thesis by (intro exI [of _ ?os] conjI)
qed

theorem own_orders_only_witness:
  "OrderResource_get
     (scenario_db\<lparr>orders :=
        [\<lparr>o_id = 1, user_id = 42, product_id = 1, quantity = 3, total_price = 30\<rparr>,
         \<lparr>o_id = 2, user_id = 7, product_id = 1, quantity = 1, total_price = 10\<rparr>,
         \<lparr>o_id = 3, user_id = 42, product_id = 1, quantity = 1, total_price = 10\<rparr>]\<rparr>)
     (Some 42)
   = Returned (JArr [JObj [(''id'', JInt 1), (''product_id'', JInt 1),
                           (''quantity'', JInt 3), (''total_price'', JNum 30)],
                     JObj [(''id'', JInt 3), (''product_id'', JInt 1),
                           (''quantity'', JInt 1), (''total_price'', JNum 10)]]) 200 \<and>
   (\<exists>os. map (\<lambda>o'. JObj [(''id'', JInt (o_id o')), (''product_id'', JInt (product_id o')),
                          (''quantity'', JInt (quantity o')), (''total_price'', JNum (total_price o'))]) os
          = [JObj [(''id'', JInt 1), (''product_id'', JInt 1),
                   (''quantity'', JInt 3), (''total_price'', JNum 30)],
             JObj [(''id'', JInt 3), (''product_id'', JInt 1),
                   (''quantity'', JInt 1), (''total_price'', JNum 10)]] \<and>
         (\<forall>o'. o' \<in> set os \<longrightarrow> user_id o' = 42) \<and>
         count_list os \<lparr>o_id = 2, user_id = 7, product_id = 1, quantity = 1, total_price = 10\<rparr> = 0 \<and>
         count_list os \<lparr>o_id = 1, user_id = 42, product_id = 1, quantity = 3, total_price = 30\<rparr> = 1 \<and>
         count_list os \<lparr>o_id = 3, user_id = 42, product_id = 1, quantity = 1, total_price = 10\<rparr> = 1)"
proof -
  let ?o1 = "\<lparr>o_id = 1, user_id = 42, product_id = 1, quantity = 3, total_price = 30\<rparr>"
  let ?o2 = "\<lparr>o_id = 2, user_id = 7, product_id = 1, quantity = 1, total_price = 10\<rparr>"
  let ?o3 = "\<lparr>o_id = 3, user_id = 42, product_id = 1, quantity = 1, total_price = 10\<rparr>"
  let ?s = "scenario_db\<lparr>orders := [?o1, ?o2, ?o3]\<rparr>"
  let ?enc = "\<lambda>o'. JObj [(''id'', JInt (o_id o')), (''product_id'', JInt (product_id o')),
                        (''quantity'', JInt (quantity o')), (''total_price'', JNum (total_price o'))]"
  have direct: "OrderResource_get ?s (Some 42)
      = Returned (JArr [JObj [(''id'', JInt 1), (''product_id'', JInt 1),
                              (''quantity'', JInt 3), (''total_price'', JNum 30)],
                        JObj [(''id'', JInt 3), (''product_id'', JInt 1),
                              (''quantity'', JInt 1), (''total_price'', JNum 10)]]) 200"
    by (simp add: OrderResource_get_def jwt_required_def order_json_def)
  from own_orders_only [of ?s 42] obtain os where
    r: "OrderResource_get ?s (Some 42) = Returned (JArr (map ?enc os)) 200"
    and m: "\<forall>o'. o' \<in> set os \<longleftrightarrow> o' \<in> set (orders ?s) \<and> user_id o' = 42"
    and c: "\<forall>o'. count_list os o' = (if user_id o' = 42 then count_list (orders ?s) o' else 0)"
    by blast
  from r direct have body: "map ?enc os
      = [JObj [(''id'', JInt 1), (''product_id'', JInt 1),
               (''quantity'', JInt 3), (''total_price'', JNum 30)],
         JObj [(''id'', JInt 3), (''product_id'', JInt 1),
               (''quantity'', JInt 1), (''total_price'', JNum 10)]]"
    by simp
  have own: "\<forall>o'. o' \<in> set os \<longrightarrow> user_id o' = 42" using m by blast
  have c2: "count_list os ?o2 = 0" using c [rule_format, of ?o2] by simp
  have c1: "count_list os ?o1 = 1" using c [rule_format, of ?o1] by simp
  have c3: "count_list os ?o3 = 1" using c [rule_format, of ?o3] by simp
  from body own c2 c1 c3 have "\<exists>os. map ?enc os
          = [JObj [(''id'', JInt 1), (''product_id'', JInt 1),
                   (''quantity'', JInt 3), (''total_price'', JNum 30)],
             JObj [(''id'', JInt 3), (''product_id'', JInt 1),
                   (''quantity'', JInt 1), (''total_price'', JNum 10)]] \<and>
         (\<forall>o'. o' \<in> set os \<longrightarrow> user_id o' = 42) \<and>
         count_list os ?o2 = 0 \<and> count_list os ?o1 = 1 \<and> count_list os ?o3 = 1"
    by (intro exI [of _ os] conjI)
  with direct show ?thesis by (rule conjI)
qed

text \<open>
  C9 (frame of a successful order). A successful order leaves the users table as it was,
  appends exactly one order to the orders table, and keeps the products table row by row:
  id, name, description and price of every row are unchanged, a row with another id is
  unchanged altogether, and a row with the ordered id gets the stock that was read minus
  the quantity.
\<close>

theorem order_frame:
  assumes "OrderResource_post s ident data = (s', r)" and "status r = 201"
  shows "\<exists>p o'. query_get (products s) (data_product_id data) = Some p \<and>
           users s' = users s \<and>
           orders s' = orders s @ [o'] \<and>
           length (products s') = length (products s) \<and>
           (\<forall>i < length (products s).
              p_id (products s' ! i) = p_id (products s ! i) \<and>
              name (products s' ! i) = name (products s ! i) \<and>
              description (products s' ! i) = description (products s ! i) \<and>
              price (products s' ! i) = price (products s ! i) \<and>
              (if p_id (products s ! i) = data_product_id data
               then stock (products s' ! i) = stock p - data_quantity data
               else products s' ! i = products s ! i))"
  using assms
proof (cases rule: post_cases [of ident s data])
  case (placed uid p)
  have k: "p_id p = data_product_id data" using placed(2) by (rule query_get_id)
  have s': "s' = s\<lparr>products := update_stock (p_id p) (stock p - data_quantity data) (products s),
        orders := orders s @ [\<lparr>o_id = next_id (map o_id (orders s)), user_id = uid,
                         product_id = p_id p, quantity = data_quantity data,
                         total_price = price p * of_int (data_quantity data)\<rparr>]\<rparr>"
    using placed(4) assms(1) by simp
  show ?thesis
    using placed(2) by (simp add: s' k update_stock_length update_stock_nth)
qed auto

theorem order_frame_witness:
  "\<exists>p o'. query_get (products scenario_db) 1 = Some p \<and>
      users (fst (OrderResource_post scenario_db (Some 42) \<lparr>data_product_id = 1, data_quantity = 3\<rparr>))
        = users scenario_db \<and>
      orders (fst (OrderResource_post scenario_db (Some 42) \<lparr>data_product_id = 1, data_quantity = 3\<rparr>))
        = orders scenario_db @ [o'] \<and>
      length (products (fst (OrderResource_post scenario_db (Some 42)
          \<lparr>data_product_id = 1, data_quantity = 3\<rparr>))) = length (products scenario_db)"
proof -
  let ?c = "OrderResource_post scenario_db (Some 42) \<lparr>data_product_id = 1, data_quantity = 3\<rparr>"
  have "status (snd ?c) = 201" by (simp add: scenario_post)
  then obtain p o' where "query_get (products scenario_db)
        (data_product_id \<lparr>data_product_id = 1, data_quantity = 3\<rparr>) = Some p"
      "users (fst ?c) = users scenario_db" "orders (fst ?c) = orders scenario_db @ [o']"
      "length (products (fst ?c)) = length (products scenario_db)"
    using order_frame [of scenario_db "Some 42" "\<lparr>data_product_id = 1, data_quantity = 3\<rparr>"
        "fst ?c" "snd ?c"]
    by auto
  then show ?thesis by auto
qed

text \<open>
  C3 (non-positive quantity), as the code has it. \<^verbatim>\<open>OrderResource.post\<close> has no check of
  the sign of the quantity. With a quantity of 0 or less, the request is answered 404
  without any change when the product does not exist; when the product exists and its
  stock is not negative, the order is placed: 201, one order with that quantity and with
  total price = price * quantity is appended, and the stock becomes stock - quantity,
  which is not less than before.
\<close>

theorem nonpositive_quantity_not_rejected:
  assumes "data_quantity data \<le> 0"
  shows "(query_get (products s) (data_product_id data) = None \<longrightarrow>
            OrderResource_post s (Some uid) data = (s, Aborted 404)) \<and>
         (\<forall>p. query_get (products s) (data_product_id data) = Some p \<and> 0 \<le> stock p \<longrightarrow>
            (\<exists>s' o'. OrderResource_post s (Some uid) data
                        = (s', Returned (message ''Order placed successfully'') 201) \<and>
                      orders s' = orders s @ [o'] \<and>
                      quantity o' = data_quantity data \<and>
                      total_price o' = price p * of_int (data_quantity data) \<and>
                      query_get (products s') (data_product_id data)
                        = Some (p\<lparr>stock := stock p - data_quantity data\<rparr>) \<and>
                      stock p \<le> stock p - data_quantity data))"
proof (intro conjI allI impI)
  assume "query_get (products s) (data_product_id data) = None"
  then show "OrderResource_post s (Some uid) data = (s, Aborted 404)" by (rule post_absent)
next
  fix p
  assume a: "query_get (products s) (data_product_id data) = Some p \<and> 0 \<le> stock p"
  then have k: "p_id p = data_product_id data" using query_get_id by blast
  have "\<not> stock p < data_quantity data" using a assms by simp
  then show "\<exists>s' o'. OrderResource_post s (Some uid) data
                        = (s', Returned (message ''Order placed successfully'') 201) \<and>
                      orders s' = orders s @ [o'] \<and>
                      quantity o' = data_quantity data \<and>
                      total_price o' = price p * of_int (data_quantity data) \<and>
                      query_get (products s') (data_product_id data)
                        = Some (p\<lparr>stock := stock p - data_quantity data\<rparr>) \<and>
                      stock p \<le> stock p - data_quantity data"
    using a assms k by (simp add: post_found place_order_enough query_get_update_stock)
qed

theorem nonpositive_quantity_not_rejected_witness:
  "OrderResource_post scenario_db (Some 42) \<lparr>data_product_id = 999, data_quantity = 0\<rparr>
     = (scenario_db, Aborted 404) \<and>
   (\<exists>s' o'. OrderResource_post scenario_db (Some 42) \<lparr>data_product_id = 1, data_quantity = 0\<rparr>
               = (s', Returned (message ''Order placed successfully'') 201) \<and>
             orders s' = orders scenario_db @ [o'] \<and> quantity o' = 0 \<and> total_price o' = 0 \<and>
             query_get (products s') 1
               = Some \<lparr>p_id = 1, name = ''widget'', description = ''a widget'', price = 10, stock = 5\<rparr>)"
proof -
  let ?p = "\<lparr>p_id = 1, name = ''widget'', description = ''a widget'', price = 10, stock = 5\<rparr>"
  have absent: "query_get (products scenario_db) 999 = None"
    by (simp add: scenario_db_def query_get_def)
  have found: "query_get (products scenario_db) 1 = Some ?p \<and> 0 \<le> stock ?p"
    by (simp add: scenario_db_def query_get_def)
  have a: "OrderResource_post scenario_db (Some 42) \<lparr>data_product_id = 999, data_quantity = 0\<rparr>
     = (scenario_db, Aborted 404)"
    using nonpositive_quantity_not_rejected
      [of "\<lparr>data_product_id = 999, data_quantity = 0\<rparr>" scenario_db 42] absent
    by simp
  have b: "\<exists>s' o'. OrderResource_post scenario_db (Some 42) \<lparr>data_product_id = 1, data_quantity = 0\<rparr>
               = (s', Returned (message ''Order placed successfully'') 201) \<and>
             orders s' = orders scenario_db @ [o'] \<and> quantity o' = 0 \<and> total_price o' = 0 \<and>
             query_get (products s') 1 = Some ?p"
    using nonpositive_quantity_not_rejected
      [of "\<lparr>data_product_id = 1, data_quantity = 0\<rparr>" scenario_db 42] found
    by simp
  from a b show ?thesis by (rule conjI)
qed

text \<open>
  C3 as stated fails: in scenario A's state an order for -2 units is not rejected. It is
  answered 201, an order of quantity -2 and total price -20 is recorded, and the stock
  goes from 5 to 7.
\<close>

theorem negative_quantity_accepted:
  "OrderResource_post scenario_db (Some 42) \<lparr>data_product_id = 1, data_quantity = - 2\<rparr>
     = (\<lparr>users = [],
         products = [\<lparr>p_id = 1, name = ''widget'', description = ''a widget'', price = 10, stock = 7\<rparr>],
         orders = [\<lparr>o_id = 1, user_id = 42, product_id = 1, quantity = - 2, total_price = - 20\<rparr>]\<rparr>,
        Returned (message ''Order placed successfully'') 201)"
  by (simp add: order_defs scenario_db_def)

text \<open>
  C7 (response bodies of \<^verbatim>\<open>POST /orders\<close>), as the code has it. A 201 response has
  the body \<^verbatim>\<open>{"message": "Order placed successfully"}\<close>, a 400 response has the body
  \<^verbatim>\<open>{"message": "Not enough stock"}\<close>; for an authenticated caller and an existing
  product the status is 400 when the stock is less than the quantity and 201 otherwise.
\<close>

theorem order_post_bodies:
  assumes "OrderResource_post s ident data = (s', r)"
  shows "(status r = 201 \<longrightarrow> r = Returned (JObj [(''message'', JStr ''Order placed successfully'')]) 201) \<and>
         (status r = 400 \<longrightarrow> r = Returned (JObj [(''message'', JStr ''Not enough stock'')]) 400) \<and>
         (\<forall>uid p. ident = Some uid \<and> query_get (products s) (data_product_id data) = Some p \<longrightarrow>
            status r = (if stock p < data_quantity data then 400 else 201))"
  using assms by (cases rule: post_cases [of ident s data]) (auto simp: message_def)

theorem order_post_bodies_witness:
  "snd (OrderResource_post scenario_db (Some 42) \<lparr>data_product_id = 1, data_quantity = 3\<rparr>)
     = Returned (JObj [(''message'', JStr ''Order placed successfully'')]) 201 \<and>
   snd (OrderResource_post scenario_db (Some 42) \<lparr>data_product_id = 1, data_quantity = 9\<rparr>)
     = Returned (JObj [(''message'', JStr ''Not enough stock'')]) 400"
proof -
  let ?a = "OrderResource_post scenario_db (Some 42) \<lparr>data_product_id = 1, data_quantity = 3\<rparr>"
  let ?b = "OrderResource_post scenario_db (Some 42) \<lparr>data_product_id = 1, data_quantity = 9\<rparr>"
  have a: "status (snd ?a) = 201" by (simp add: scenario_post)
  have b: "status (snd ?b) = 400" by (simp add: order_defs scenario_db_def)
  have "snd ?a = Returned (JObj [(''message'', JStr ''Order placed successfully'')]) 201"
    using order_post_bodies [of scenario_db "Some 42" _ "fst ?a" "snd ?a"] a by simp
  moreover have "snd ?b = Returned (JObj [(''message'', JStr ''Not enough stock'')]) 400"
    using order_post_bodies [of scenario_db "Some 42" _ "fst ?b" "snd ?b"] b by simp
  ultimately show ?thesis by (rule conjI)
qed

text \<open>
  C7 as stated fails in its first half: the body of the 201 response of scenario A is
  the message object, not the encoding of the order that was created.
\<close>

theorem order_post_body_is_message:
  "OrderResource_post scenario_db (Some 42) \<lparr>data_product_id = 1, data_quantity = 3\<rparr>
     = (\<lparr>users = [],
         products = [\<lparr>p_id = 1, name = ''widget'', description = ''a widget'', price = 10, stock = 2\<rparr>],
         orders = [\<lparr>o_id = 1, user_id = 42, product_id = 1, quantity = 3, total_price = 30\<rparr>]\<rparr>,
        Returned (JObj [(''message'', JStr ''Order placed successfully'')]) 201) \<and>
   Returned (JObj [(''message'', JStr ''Order placed successfully'')]) 201
     \<noteq> Returned (order_json \<lparr>o_id = 1, user_id = 42, product_id = 1, quantity = 3, total_price = 30\<rparr>) 201"
  by (simp add: order_defs scenario_db_def message_def order_json_def)




end
